theory Spec2Isabelle
  imports Main "HOL-Library.Word"
begin

section \<open>The SPHINCS+ binding of \<^verbatim>\<open>sphincs_wrapper.c\<close>\<close>

text \<open>
  The file \<^verbatim>\<open>vendor/pqclean/wrappers/sphincs_wrapper.c\<close> consists of six one-line C
  functions. Three of them hand their arguments to a function declared in \<^verbatim>\<open>api.h\<close>
  and return its \<^verbatim>\<open>int\<close> status; three return a macro of \<^verbatim>\<open>api.h\<close>.

  \<^verbatim>\<open>api.h\<close> and the functions it declares are not among the sources. They are taken
  as parameters: the three macros as a record of integers, the three functions as a
  record of state transformers on an arbitrary world \<open>'w\<close> (memory, entropy source and
  whatever else the functions may read or write).
\<close>

subsection \<open>C types\<close>

text \<open>
  \<^verbatim>\<open>int\<close> is a 32-bit two's complement integer, read with \<^const>\<open>sint\<close>; \<^verbatim>\<open>size_t\<close>
  and data pointers are 64-bit (LP64). The bindings only pass such values on, so nothing
  below depends on the widths of \<^verbatim>\<open>size_t\<close> and of pointers.
\<close>

type_synonym c_int = "32 word"
type_synonym size_t = "64 word"
type_synonym ptr = "64 word"

text \<open>
  The conversion performed by \<^verbatim>\<open>return e;\<close> in a function returning \<^verbatim>\<open>int\<close>, on
  the mathematical value of \<^verbatim>\<open>e\<close>: a representable value is kept, any other one is
  reduced modulo \<open>2 ^ 32\<close>.
\<close>

definition to_c_int :: "int \<Rightarrow> c_int" where
  "to_c_int v = word_of_int v"

definition c_int_representable :: "int \<Rightarrow> bool" where
  "c_int_representable v = (- (2 ^ 31) \<le> v \<and> v < 2 ^ 31)"

subsection \<open>What \<^verbatim>\<open>api.h\<close> provides\<close>

text \<open>
  The macros \<^verbatim>\<open>PQCLEAN_SPHINCSSHA2128SSIMPLE_CLEAN_CRYPTO_PUBLICKEYBYTES\<close>,
  \<^verbatim>\<open>..._CRYPTO_SECRETKEYBYTES\<close> and \<^verbatim>\<open>..._CRYPTO_BYTES\<close>, by the value of the
  constant expression each expands to.
\<close>

record header =
  CRYPTO_PUBLICKEYBYTES :: int
  CRYPTO_SECRETKEYBYTES :: int
  CRYPTO_BYTES :: int

text \<open>
  The functions \<^verbatim>\<open>PQCLEAN_SPHINCSSHA2128SSIMPLE_CLEAN_crypto_sign_keypair\<close>,
  \<^verbatim>\<open>..._crypto_sign_signature\<close> and \<^verbatim>\<open>..._crypto_sign_verify\<close>, with the argument
  lists the bindings call them with. Each takes the world and returns its status and the
  world it leaves.
\<close>

record 'w primitives =
  crypto_sign_keypair :: "ptr \<Rightarrow> ptr \<Rightarrow> 'w \<Rightarrow> c_int \<times> 'w"
  crypto_sign_signature :: "ptr \<Rightarrow> ptr \<Rightarrow> ptr \<Rightarrow> size_t \<Rightarrow> ptr \<Rightarrow> 'w \<Rightarrow> c_int \<times> 'w"
  crypto_sign_verify :: "ptr \<Rightarrow> size_t \<Rightarrow> ptr \<Rightarrow> size_t \<Rightarrow> ptr \<Rightarrow> 'w \<Rightarrow> c_int \<times> 'w"

subsection \<open>Function bodies as programs over the primitives\<close>

text \<open>
  A call of one of the three functions of \<^verbatim>\<open>api.h\<close>, with its actual arguments.
\<close>

datatype primitive_call =
    Crypto_sign_keypair ptr ptr
  | Crypto_sign_signature ptr ptr ptr size_t ptr
  | Crypto_sign_verify ptr size_t ptr size_t ptr

text \<open>
  A function body either returns a value, or calls a primitive and goes on with the
  status the primitive returned. Everything a body does besides computing on its own
  arguments is a call of a primitive, so what a body does to the world is the sequence
  of its \<open>Invoke\<close> nodes.
\<close>

datatype 'a prog =
    Return 'a
  | Invoke primitive_call "c_int \<Rightarrow> 'a prog"

fun perform :: "'w primitives \<Rightarrow> primitive_call \<Rightarrow> 'w \<Rightarrow> c_int \<times> 'w" where
  "perform P (Crypto_sign_keypair pk sk) = crypto_sign_keypair P pk sk"
| "perform P (Crypto_sign_signature sig siglen m mlen sk) =
     crypto_sign_signature P sig siglen m mlen sk"
| "perform P (Crypto_sign_verify sig siglen m mlen pk) =
     crypto_sign_verify P sig siglen m mlen pk"

primrec exec :: "'w primitives \<Rightarrow> 'a prog \<Rightarrow> 'w \<Rightarrow> 'a \<times> 'w" where
  "exec P (Return v) = (\<lambda>w. (v, w))"
| "exec P (Invoke c k) = (\<lambda>w. case perform P c w of (r, w') \<Rightarrow> exec P (k r) w')"

text \<open>Whether a body returns without having called any primitive.\<close>

fun returns_without_primitive :: "'a prog \<Rightarrow> bool" where
  "returns_without_primitive (Return v) = True"
| "returns_without_primitive (Invoke c k) = False"

subsection \<open>The six functions of \<^verbatim>\<open>sphincs_wrapper.c\<close>\<close>

definition pqc_keypair :: "ptr \<Rightarrow> ptr \<Rightarrow> c_int prog" where
  "pqc_keypair pk sk = Invoke (Crypto_sign_keypair pk sk) Return"

definition pqc_sign :: "ptr \<Rightarrow> ptr \<Rightarrow> ptr \<Rightarrow> size_t \<Rightarrow> ptr \<Rightarrow> c_int prog" where
  "pqc_sign sig siglen m mlen sk = Invoke (Crypto_sign_signature sig siglen m mlen sk) Return"

definition pqc_verify :: "ptr \<Rightarrow> size_t \<Rightarrow> ptr \<Rightarrow> size_t \<Rightarrow> ptr \<Rightarrow> c_int prog" where
  "pqc_verify sig siglen m mlen pk = Invoke (Crypto_sign_verify sig siglen m mlen pk) Return"

definition pqc_pk_bytes :: "header \<Rightarrow> c_int prog" where
  "pqc_pk_bytes hdr = Return (to_c_int (CRYPTO_PUBLICKEYBYTES hdr))"

definition pqc_sk_bytes :: "header \<Rightarrow> c_int prog" where
  "pqc_sk_bytes hdr = Return (to_c_int (CRYPTO_SECRETKEYBYTES hdr))"

definition pqc_sig_bytes :: "header \<Rightarrow> c_int prog" where
  "pqc_sig_bytes hdr = Return (to_c_int (CRYPTO_BYTES hdr))"

subsection \<open>Callers\<close>

text \<open>
  A caller's array, as the caller knows it: where it starts and how many bytes it holds.
  A C array argument is passed as the address of its first element, and the parameter
  \<^verbatim>\<open>const unsigned char *sk\<close> of \<^verbatim>\<open>pqc_sign\<close> comes with no length: a call of
  \<^verbatim>\<open>pqc_sign\<close> with a secret-key array is the call with the array's address.
\<close>

record buffer =
  buf_ptr :: ptr
  buf_len :: nat

definition sign_with_key_buffer :: "ptr \<Rightarrow> ptr \<Rightarrow> ptr \<Rightarrow> size_t \<Rightarrow> buffer \<Rightarrow> c_int prog" where
  "sign_with_key_buffer sig siglen m mlen skbuf = pqc_sign sig siglen m mlen (buf_ptr skbuf)"

text \<open>
  A process is a sequence of calls of the six bindings, each running in the world the
  previous one left.
\<close>

datatype request =
    Keypair ptr ptr
  | Sign ptr ptr ptr size_t ptr
  | Verify ptr size_t ptr size_t ptr
  | Pk_bytes
  | Sk_bytes
  | Sig_bytes

fun call :: "header \<Rightarrow> request \<Rightarrow> c_int prog" where
  "call hdr (Keypair pk sk) = pqc_keypair pk sk"
| "call hdr (Sign sig siglen m mlen sk) = pqc_sign sig siglen m mlen sk"
| "call hdr (Verify sig siglen m mlen pk) = pqc_verify sig siglen m mlen pk"
| "call hdr Pk_bytes = pqc_pk_bytes hdr"
| "call hdr Sk_bytes = pqc_sk_bytes hdr"
| "call hdr Sig_bytes = pqc_sig_bytes hdr"

fun run :: "header \<Rightarrow> 'w primitives \<Rightarrow> request list \<Rightarrow> 'w \<Rightarrow> c_int list \<times> 'w" where
  "run hdr P [] w = ([], w)"
| "run hdr P (r # rs) w =
     (case exec P (call hdr r) w of
        (v, w') \<Rightarrow> (case run hdr P rs w' of (vs, w'') \<Rightarrow> (v # vs, w'')))"

subsection \<open>Sample parameters for concrete evaluations\<close>

text \<open>
  The key and signature sizes of the parameter set the identifiers name
  (SPHINCS+-SHA2-128s-simple): 32, 64 and 7856 bytes.
\<close>

definition sample_header :: header where
  "sample_header =
     \<lparr>CRYPTO_PUBLICKEYBYTES = 32, CRYPTO_SECRETKEYBYTES = 64, CRYPTO_BYTES = 7856\<rparr>"

text \<open>
  Primitives that do nothing but append their call to a log and return status 0. They
  stand for no signature scheme; they make the calls a body performs visible in the
  world it leaves.
\<close>

definition logging_primitives :: "primitive_call list primitives" where
  "logging_primitives =
     \<lparr>crypto_sign_keypair = (\<lambda>pk sk log. (0, log @ [Crypto_sign_keypair pk sk])),
      crypto_sign_signature =
        (\<lambda>sig siglen m mlen sk log. (0, log @ [Crypto_sign_signature sig siglen m mlen sk])),
      crypto_sign_verify =
        (\<lambda>sig siglen m mlen pk log. (0, log @ [Crypto_sign_verify sig siglen m mlen pk]))\<rparr>"

section \<open>Properties\<close>

subsection \<open>Auxiliary facts\<close>

lemma sint_to_c_int:
  assumes "c_int_representable v"
  shows "sint (to_c_int v) = v"
  using assms
  by (simp add: to_c_int_def c_int_representable_def sint_sbintrunc' signed_take_bit_int_eq_self)

lemma exec_pqc_keypair: "exec P (pqc_keypair pk sk) w = crypto_sign_keypair P pk sk w"
  by (simp add: pqc_keypair_def)

lemma exec_pqc_sign:
  "exec P (pqc_sign sig siglen m mlen sk) w = crypto_sign_signature P sig siglen m mlen sk w"
  by (simp add: pqc_sign_def)

lemma exec_pqc_verify:
  "exec P (pqc_verify sig siglen m mlen pk) w = crypto_sign_verify P sig siglen m mlen pk w"
  by (simp add: pqc_verify_def)

lemma exec_pqc_pk_bytes: "exec P (pqc_pk_bytes hdr) w = (to_c_int (CRYPTO_PUBLICKEYBYTES hdr), w)"
  by (simp add: pqc_pk_bytes_def)

lemma exec_pqc_sk_bytes: "exec P (pqc_sk_bytes hdr) w = (to_c_int (CRYPTO_SECRETKEYBYTES hdr), w)"
  by (simp add: pqc_sk_bytes_def)

lemma exec_pqc_sig_bytes: "exec P (pqc_sig_bytes hdr) w = (to_c_int (CRYPTO_BYTES hdr), w)"
  by (simp add: pqc_sig_bytes_def)

lemma sample_header_representable:
  "c_int_representable (CRYPTO_PUBLICKEYBYTES sample_header)"
  "c_int_representable (CRYPTO_SECRETKEYBYTES sample_header)"
  "c_int_representable (CRYPTO_BYTES sample_header)"
  by (simp_all add: sample_header_def c_int_representable_def)

subsection \<open>The size queries\<close>

text \<open>
  Claim C6. \<^verbatim>\<open>pqc_pk_bytes\<close>, \<^verbatim>\<open>pqc_sk_bytes\<close> and \<^verbatim>\<open>pqc_sig_bytes\<close> are pure and
  cannot fail: each returns without calling a primitive and leaves the world as it found
  it. Their values are the same on every call within one process: in the world left by
  any sequence \<open>rs\<close> of calls of the six bindings (key generations, signings,
  verifications and size queries, in any order), started in any world \<open>w\<close> and over any
  primitives, each query returns the value it returns in \<open>w\<close>.
\<close>

theorem size_queries_pure_and_constant:
  "returns_without_primitive (pqc_pk_bytes hdr) \<and>
   returns_without_primitive (pqc_sk_bytes hdr) \<and>
   returns_without_primitive (pqc_sig_bytes hdr) \<and>
   exec P (pqc_pk_bytes hdr) (snd (run hdr P rs w)) =
     (fst (exec P (pqc_pk_bytes hdr) w), snd (run hdr P rs w)) \<and>
   exec P (pqc_sk_bytes hdr) (snd (run hdr P rs w)) =
     (fst (exec P (pqc_sk_bytes hdr) w), snd (run hdr P rs w)) \<and>
   exec P (pqc_sig_bytes hdr) (snd (run hdr P rs w)) =
     (fst (exec P (pqc_sig_bytes hdr) w), snd (run hdr P rs w))"
  by (simp add: pqc_pk_bytes_def pqc_sk_bytes_def pqc_sig_bytes_def)

subsection \<open>The bindings against what they wrap\<close>

text \<open>
  Claim C10. Each of the six bindings is extensionally equal to what it wraps. Run over
  any primitives in any world, \<^verbatim>\<open>pqc_keypair\<close>, \<^verbatim>\<open>pqc_sign\<close> and \<^verbatim>\<open>pqc_verify\<close>
  return the status and leave the world that the wrapped function returns and leaves on
  the same arguments: no validation, no transformation and no change of the world of
  their own. \<^verbatim>\<open>pqc_pk_bytes\<close>, \<^verbatim>\<open>pqc_sk_bytes\<close> and \<^verbatim>\<open>pqc_sig_bytes\<close> return the value
  of the wrapped macro and leave the world unchanged, the macros of \<^verbatim>\<open>api.h\<close> being
  values of type \<^verbatim>\<open>int\<close>.
\<close>

theorem bindings_equal_wrapped:
  assumes "c_int_representable (CRYPTO_PUBLICKEYBYTES hdr)"
    and "c_int_representable (CRYPTO_SECRETKEYBYTES hdr)"
    and "c_int_representable (CRYPTO_BYTES hdr)"
  shows "exec P (pqc_keypair pk sk) w = crypto_sign_keypair P pk sk w \<and>
    exec P (pqc_sign sig siglen m mlen sk) w = crypto_sign_signature P sig siglen m mlen sk w \<and>
    exec P (pqc_verify sig siglen' m mlen pk) w = crypto_sign_verify P sig siglen' m mlen pk w \<and>
    apfst sint (exec P (pqc_pk_bytes hdr) w) = (CRYPTO_PUBLICKEYBYTES hdr, w) \<and>
    apfst sint (exec P (pqc_sk_bytes hdr) w) = (CRYPTO_SECRETKEYBYTES hdr, w) \<and>
    apfst sint (exec P (pqc_sig_bytes hdr) w) = (CRYPTO_BYTES hdr, w)"
  using assms
  by (simp add: exec_pqc_keypair exec_pqc_sign exec_pqc_verify exec_pqc_pk_bytes
      exec_pqc_sk_bytes exec_pqc_sig_bytes sint_to_c_int)

theorem bindings_equal_wrapped_witness:
  "c_int_representable (CRYPTO_PUBLICKEYBYTES sample_header) \<and>
   c_int_representable (CRYPTO_SECRETKEYBYTES sample_header) \<and>
   c_int_representable (CRYPTO_BYTES sample_header) \<and>
   exec logging_primitives (pqc_keypair 0x1000 0x2000) [] =
     (0, [Crypto_sign_keypair 0x1000 0x2000]) \<and>
   exec logging_primitives (pqc_sign 0x3000 0x5000 0x6000 5 0x2000) [] =
     (0, [Crypto_sign_signature 0x3000 0x5000 0x6000 5 0x2000]) \<and>
   exec logging_primitives (pqc_verify 0x3000 7856 0x6000 5 0x1000) [] =
     (0, [Crypto_sign_verify 0x3000 7856 0x6000 5 0x1000]) \<and>
   apfst sint (exec logging_primitives (pqc_pk_bytes sample_header) []) = (32, []) \<and>
   apfst sint (exec logging_primitives (pqc_sk_bytes sample_header) []) = (64, []) \<and>
   apfst sint (exec logging_primitives (pqc_sig_bytes sample_header) []) = (7856, [])"
  using bindings_equal_wrapped [OF sample_header_representable,
      of logging_primitives "0x1000" "0x2000" "[]" "0x3000" "0x5000" "0x6000" 5 7856]
    sample_header_representable
  by (simp add: logging_primitives_def sample_header_def)

subsection \<open>Signing and the length of the secret key\<close>

text \<open>
  Claim C4, as stated: a call of sign with a secret-key buffer whose length differs from
  the secret-key size returns an error before any cryptographic computation. It fails
  for a secret-key buffer of 3 bytes with the sample sizes (secret-key size 64):
  \<^verbatim>\<open>pqc_sign\<close> does not return without calling the signing primitive.
\<close>

theorem sign_key_length_counterexample:
  "\<not> (pqc_sk_bytes sample_header \<noteq> Return (of_nat (buf_len \<lparr>buf_ptr = 0x2000, buf_len = 3\<rparr>)) \<longrightarrow>
      returns_without_primitive
        (sign_with_key_buffer 0x3000 0x5000 0x6000 5 \<lparr>buf_ptr = 0x2000, buf_len = 3\<rparr>))"
  by (simp add: pqc_sk_bytes_def sample_header_def to_c_int_def sign_with_key_buffer_def
      pqc_sign_def)

text \<open>
  Claim C4, amended. \<^verbatim>\<open>pqc_sign\<close> receives the secret key as a pointer without a
  length and validates nothing. Whatever the length \<open>n\<close> of the caller's secret-key
  buffer, the call consists of one call of the signing primitive with the caller's
  arguments, and its status and the world it leaves are those of the primitive.
\<close>

theorem sign_independent_of_key_length:
  "sign_with_key_buffer sig siglen m mlen (skbuf\<lparr>buf_len := n\<rparr>) =
     Invoke (Crypto_sign_signature sig siglen m mlen (buf_ptr skbuf)) Return \<and>
   exec P (sign_with_key_buffer sig siglen m mlen (skbuf\<lparr>buf_len := n\<rparr>)) w =
     crypto_sign_signature P sig siglen m mlen (buf_ptr skbuf) w"
  by (simp add: sign_with_key_buffer_def pqc_sign_def)

end
